theory Spec2Isabelle
  imports Main
begin

section \<open>JSON documents as \<open>json.load\<close> builds them\<close>

text \<open>
  The script \<^verbatim>\<open>scripts/remove_screenshot_data.py\<close> works on the value that
  \<^verbatim>\<open>json.load\<close> returns: \<^verbatim>\<open>None\<close>, a \<^verbatim>\<open>bool\<close>, an \<^verbatim>\<open>int\<close>, a \<^verbatim>\<open>float\<close>,
  a \<^verbatim>\<open>str\<close>, a \<^verbatim>\<open>list\<close> or a \<^verbatim>\<open>dict\<close> with string keys. A float is carried as
  an opaque value of type \<open>'f\<close>: the script never looks at one. A dict keeps its keys
  in insertion order, so it is an association list; the decoder builds every list and
  dict afresh, so no two positions of a document share an object and the document is a
  tree.
\<close>

datatype 'f json =
    JNull
  | JBool bool
  | JInt int
  | JFloat 'f
  | JStr string
  | JArr "'f json list"
  | JObj "(string \<times> 'f json) list"

type_synonym 'f dict = "(string \<times> 'f json) list"

text \<open>The exceptions that the handlers of lines 55 to 63 tell apart.\<close>

datatype exn =
    FileNotFoundError
  | JSONDecodeError string
  | KeyError string
  | OtherException string

subsection \<open>The three dict operations the script uses\<close>

text \<open>\<^verbatim>\<open>k in d\<close>\<close>

definition dict_contains :: "'f dict \<Rightarrow> string \<Rightarrow> bool" where
  "dict_contains d k = (k \<in> set (map fst d))"

text \<open>\<^verbatim>\<open>d[k]\<close>, which raises \<^verbatim>\<open>KeyError\<close> for a key that is not there.\<close>

fun dict_getitem :: "'f dict \<Rightarrow> string \<Rightarrow> exn + 'f json" where
  "dict_getitem [] k = Inl (KeyError k)"
| "dict_getitem ((k', v) # d) k = (if k' = k then Inr v else dict_getitem d k)"

text \<open>
  \<^verbatim>\<open>d[k] = v\<close>: the value of an existing key is overwritten where the key stands,
  a new key goes to the end.
\<close>

fun dict_setitem :: "'f dict \<Rightarrow> string \<Rightarrow> 'f json \<Rightarrow> 'f dict" where
  "dict_setitem [] k v = [(k, v)]"
| "dict_setitem ((k', v') # d) k v =
     (if k' = k then (k', v) # d else (k', v') # dict_setitem d k v)"

section \<open>The transformation (lines 30 to 45)\<close>

text \<open>
  Lines 35 to 38 and lines 42 to 45 are the same block, run on one dict with the
  counter \<^verbatim>\<open>removed_count\<close>:
  \<^verbatim>\<open>
  if "screenshot" in item:
      if item["screenshot"] is not None:
          removed_count += 1
      item["screenshot"] = None
  \<close>
\<close>

definition null_screenshot :: "'f dict \<Rightarrow> int \<Rightarrow> exn + ('f dict \<times> int)" where
  "null_screenshot item removed_count =
     (if dict_contains item ''screenshot'' then
        (case dict_getitem item ''screenshot'' of
           Inl e \<Rightarrow> Inl e
         | Inr v \<Rightarrow>
             Inr (dict_setitem item ''screenshot'' JNull,
                  if v \<noteq> JNull then removed_count + 1 else removed_count))
      else Inr (item, removed_count))"

text \<open>
  The loop of lines 34 to 38, \<^verbatim>\<open>for item in data\<close>, with the guard
  \<^verbatim>\<open>isinstance(item, dict)\<close>: it returns the list as the loop leaves it and the
  counter.
\<close>

fun strip_items :: "'f json list \<Rightarrow> int \<Rightarrow> exn + ('f json list \<times> int)" where
  "strip_items [] removed_count = Inr ([], removed_count)"
| "strip_items (JObj d # rest) removed_count =
     (case null_screenshot d removed_count of
        Inl e \<Rightarrow> Inl e
      | Inr (d', removed_count') \<Rightarrow>
          (case strip_items rest removed_count' of
             Inl e \<Rightarrow> Inl e
           | Inr (rest', n) \<Rightarrow> Inr (JObj d' # rest', n)))"
| "strip_items (item # rest) removed_count =
     (case strip_items rest removed_count of
        Inl e \<Rightarrow> Inl e
      | Inr (rest', n) \<Rightarrow> Inr (item # rest', n))"

text \<open>
  Lines 30 to 45: the counter starts at zero, a list is looped over, a dict is handled
  directly, any other value is left alone.
\<close>

definition strip_document :: "'f json \<Rightarrow> exn + ('f json \<times> int)" where
  "strip_document data =
     (case data of
        JArr items \<Rightarrow>
          (case strip_items items 0 of
             Inl e \<Rightarrow> Inl e
           | Inr (items', removed_count) \<Rightarrow> Inr (JArr items', removed_count))
      | JObj d \<Rightarrow>
          (case null_screenshot d 0 of
             Inl e \<Rightarrow> Inl e
           | Inr (d', removed_count) \<Rightarrow> Inr (JObj d', removed_count))
      | _ \<Rightarrow> Inr (data, 0))"

section \<open>What the specification counts\<close>

text \<open>
  An element that is an object containing a \<^verbatim>\<open>screenshot\<close> key whose value is
  not null.
\<close>

fun has_nonnull_screenshot :: "'f json \<Rightarrow> bool" where
  "has_nonnull_screenshot (JObj d) =
     (case map_of d ''screenshot'' of None \<Rightarrow> False | Some v \<Rightarrow> v \<noteq> JNull)"
| "has_nonnull_screenshot _ = False"

text \<open>
  What the loop leaves in the place of one element: an object that has the key gets
  null stored under it, anything else stays.
\<close>

fun nulled :: "'f json \<Rightarrow> 'f json" where
  "nulled (JObj d) =
     JObj (if dict_contains d ''screenshot'' then dict_setitem d ''screenshot'' JNull else d)"
| "nulled v = v"

text \<open>
  The output document in the specification's words: the same structure and keys in the
  same order, the value of every top-level \<^verbatim>\<open>screenshot\<close> key (of the root object,
  or of each object element of the root array) replaced by null, every other value kept
  and nothing below the top level visited.
\<close>

definition spec_entry :: "string \<times> 'f json \<Rightarrow> string \<times> 'f json" where
  "spec_entry kv = (if fst kv = ''screenshot'' then (fst kv, JNull) else kv)"

fun spec_element :: "'f json \<Rightarrow> 'f json" where
  "spec_element (JObj d) = JObj (map spec_entry d)"
| "spec_element v = v"

fun spec_output :: "'f json \<Rightarrow> 'f json" where
  "spec_output (JArr xs) = JArr (map spec_element xs)"
| "spec_output (JObj d) = JObj (map spec_entry d)"
| "spec_output v = v"

text \<open>
  A Python dict holds each key once. The datatype also has association lists that
  repeat a key; \<open>keys_once\<close> says that the dicts the script touches (the root object, the
  object elements of the root array) are dicts.
\<close>

fun is_object :: "'f json \<Rightarrow> bool" where
  "is_object (JObj d) = True"
| "is_object v = False"

fun dict_keys_once :: "'f json \<Rightarrow> bool" where
  "dict_keys_once (JObj d) = distinct (map fst d)"
| "dict_keys_once v = True"

fun keys_once :: "'f json \<Rightarrow> bool" where
  "keys_once (JArr xs) = list_all dict_keys_once xs"
| "keys_once v = dict_keys_once v"

text \<open>The shapes the specification names: an array of objects, and its complement.\<close>

fun array_of_objects :: "'f json \<Rightarrow> bool" where
  "array_of_objects (JArr xs) = list_all is_object xs"
| "array_of_objects v = False"

text \<open>An array with an element that the loop counts.\<close>

fun array_with_nonnull_screenshot :: "'f json \<Rightarrow> bool" where
  "array_with_nonnull_screenshot (JArr xs) = list_ex has_nonnull_screenshot xs"
| "array_with_nonnull_screenshot v = False"

section \<open>Files, the JSON library and the process\<close>

text \<open>
  A path names a file; several paths can name the same one (\<^verbatim>\<open>in.json\<close> and
  \<^verbatim>\<open>./in.json\<close>, a symbolic or a hard link). The file system maps the identity of
  a file to a directory or to a regular file with its text.
\<close>

type_synonym path = string

type_synonym file_id = string

datatype node = Regular string | Directory

type_synonym filesystem = "file_id \<Rightarrow> node option"

text \<open>
  What the script calls and does not define, taken as parameters:
  \<^item> \<open>json_load\<close>: \<^verbatim>\<open>json.load\<close> on the text of a file, a document or the exception
    raised (\<^verbatim>\<open>JSONDecodeError\<close> with its message, or another one such as
    \<^verbatim>\<open>UnicodeDecodeError\<close>);
  \<^item> \<open>json_dump\<close>: \<^verbatim>\<open>json.dump(data, f, indent=2, ensure_ascii=False)\<close>, the text
    that reaches the file and the exception raised on the way, if any;
  \<^item> \<open>file_of\<close>: the identity of the file that a path names (for a path that names
    none, of the file that would be created there); two paths name the same file
    exactly when this is equal;
  \<^item> \<open>read_denied\<close>, \<open>write_denied\<close>: the regular files that may not be opened for
    reading, for writing (\<^verbatim>\<open>PermissionError\<close>);
  \<^item> \<open>create_fault\<close>: the exception that \<^verbatim>\<open>open(p, "w")\<close> raises for a path that
    names no file and where none can be created (\<^verbatim>\<open>FileNotFoundError\<close> for a
    missing parent directory), \<open>None\<close> where the file can be created.
\<close>

record 'f platform =
  json_load :: "string \<Rightarrow> exn + 'f json"
  json_dump :: "'f json \<Rightarrow> string \<times> exn option"
  file_of :: "path \<Rightarrow> file_id"
  read_denied :: "file_id \<Rightarrow> bool"
  write_denied :: "file_id \<Rightarrow> bool"
  create_fault :: "path \<Rightarrow> exn option"

text \<open>\<^verbatim>\<open>os.path.exists(p)\<close>\<close>

definition path_exists :: "'f platform \<Rightarrow> filesystem \<Rightarrow> path \<Rightarrow> bool" where
  "path_exists pf fs p = (fs (file_of pf p) \<noteq> None)"

text \<open>The text of \<^verbatim>\<open>IsADirectoryError\<close> and of \<^verbatim>\<open>PermissionError\<close>.\<close>

definition is_a_directory :: "path \<Rightarrow> exn" where
  "is_a_directory p =
     OtherException (''[Errno 21] Is a directory: '' @ [CHR 0x27] @ p @ [CHR 0x27])"

definition permission_denied :: "path \<Rightarrow> exn" where
  "permission_denied p =
     OtherException (''[Errno 13] Permission denied: '' @ [CHR 0x27] @ p @ [CHR 0x27])"

text \<open>\<^verbatim>\<open>open(p, "r", encoding="utf-8")\<close>: the text to be read, or the exception.\<close>

definition open_read :: "'f platform \<Rightarrow> filesystem \<Rightarrow> path \<Rightarrow> exn + string" where
  "open_read pf fs p =
     (case fs (file_of pf p) of
        None \<Rightarrow> Inl FileNotFoundError
      | Some Directory \<Rightarrow> Inl (is_a_directory p)
      | Some (Regular contents) \<Rightarrow>
          if read_denied pf (file_of pf p) then Inl (permission_denied p) else Inr contents)"

text \<open>
  \<^verbatim>\<open>open(p, "w", encoding="utf-8")\<close>: an existing file is emptied if it may be
  written, a missing one is created empty if it can be.
\<close>

definition open_write :: "'f platform \<Rightarrow> filesystem \<Rightarrow> path \<Rightarrow> exn + filesystem" where
  "open_write pf fs p =
     (case fs (file_of pf p) of
        Some Directory \<Rightarrow> Inl (is_a_directory p)
      | Some (Regular contents) \<Rightarrow>
          if write_denied pf (file_of pf p) then Inl (permission_denied p)
          else Inr (fs(file_of pf p \<mapsto> Regular []))
      | None \<Rightarrow>
          (case create_fault pf p of
             Some e \<Rightarrow> Inl e
           | None \<Rightarrow> Inr (fs(file_of pf p \<mapsto> Regular []))))"

text \<open>\<^verbatim>\<open>str\<close> of an \<^verbatim>\<open>int\<close>, for the f-string of line 52.\<close>

fun str_nat :: "nat \<Rightarrow> string" where
  "str_nat n =
     (if n < 10 then [''0123456789'' ! n]
      else str_nat (n div 10) @ [''0123456789'' ! (n mod 10)])"

declare str_nat.simps [simp del]

definition str_int :: "int \<Rightarrow> string" where
  "str_int i = (if i < 0 then CHR ''-'' # str_nat (nat (- i)) else str_nat (nat i))"

text \<open>
  A call either returns or leaves the process through \<^verbatim>\<open>sys.exit\<close>; with it come
  the lines printed and the files as they are then.
\<close>

datatype status = Returned | Exited int

record outcome =
  status :: status
  stdout :: "string list"
  files :: filesystem

text \<open>
  Lines 48 to 53: the output is opened, the document is handed to \<^verbatim>\<open>json.dump\<close>
  and the three lines are printed. An exception at the opening leaves the files
  untouched; one raised by the encoder leaves the output file with what was written
  until then.
\<close>

definition write_report ::
  "'f platform \<Rightarrow> filesystem \<Rightarrow> path \<Rightarrow> path \<Rightarrow> 'f json \<Rightarrow> int \<Rightarrow>
   filesystem \<times> (exn + string list)" where
  "write_report pf fs input_file output_file data removed_count =
     (case open_write pf fs output_file of
        Inl e \<Rightarrow> (fs, Inl e)
      | Inr fs1 \<Rightarrow>
     (case json_dump pf data of
        (written, Some e) \<Rightarrow> (fs1(file_of pf output_file \<mapsto> Regular written), Inl e)
      | (written, None) \<Rightarrow>
          (fs1(file_of pf output_file \<mapsto> Regular written),
           Inr [''Successfully processed '' @ input_file,
                ''Removed '' @ str_int removed_count @ '' screenshot entries'',
                ''Output written to '' @ output_file])))"

text \<open>
  The body of the \<^verbatim>\<open>try\<close> (lines 25 to 53): read, decode, transform, then
  write and report. An exception before line 48 leaves the files untouched.
\<close>

definition try_body ::
  "'f platform \<Rightarrow> filesystem \<Rightarrow> path \<Rightarrow> path \<Rightarrow> filesystem \<times> (exn + string list)" where
  "try_body pf fs input_file output_file =
     (case open_read pf fs input_file of
        Inl e \<Rightarrow> (fs, Inl e)
      | Inr contents \<Rightarrow>
     (case json_load pf contents of
        Inl e \<Rightarrow> (fs, Inl e)
      | Inr data \<Rightarrow>
     (case strip_document data of
        Inl e \<Rightarrow> (fs, Inl e)
      | Inr (data', removed_count) \<Rightarrow>
          write_report pf fs input_file output_file data' removed_count)))"

text \<open>The three handlers of lines 55 to 63, in their order; each is followed by
  \<^verbatim>\<open>sys.exit(1)\<close>.\<close>

fun handler :: "path \<Rightarrow> exn \<Rightarrow> string" where
  "handler input_file FileNotFoundError = ''Error: File '' @ input_file @ '' not found''"
| "handler input_file (JSONDecodeError msg) =
     ''Error: Invalid JSON in '' @ input_file @ '': '' @ msg"
| "handler input_file (KeyError k) =
     ''Error processing file: '' @ [CHR 0x27] @ k @ [CHR 0x27]"
| "handler input_file (OtherException msg) = ''Error processing file: '' @ msg"

definition remove_screenshots_from_json ::
  "'f platform \<Rightarrow> filesystem \<Rightarrow> path \<Rightarrow> path option \<Rightarrow> outcome" where
  "remove_screenshots_from_json pf fs input_file output_file_arg =
     (let output_file = (case output_file_arg of None \<Rightarrow> input_file | Some p \<Rightarrow> p)
      in case try_body pf fs input_file output_file of
           (fs', Inr printed) \<Rightarrow> \<lparr>status = Returned, stdout = printed, files = fs'\<rparr>
         | (fs', Inl e) \<Rightarrow>
             \<lparr>status = Exited 1, stdout = [handler input_file e], files = fs'\<rparr>)"

text \<open>\<^verbatim>\<open>main\<close> (lines 66 to 81) on \<^verbatim>\<open>sys.argv\<close>.\<close>

definition main :: "'f platform \<Rightarrow> filesystem \<Rightarrow> string list \<Rightarrow> outcome" where
  "main pf fs argv =
     (if length argv < 2 then
        \<lparr>status = Exited 1,
         stdout = [''Usage: python remove_screenshot_data.py <input_file> [output_file]'',
                   ''Example: python remove_screenshot_data.py hitl/hitl-form-input.json''],
         files = fs\<rparr>
      else
        let input_file = argv ! 1;
            output_file = (if length argv > 2 then Some (argv ! 2) else None)
        in if \<not> path_exists pf fs input_file then
             \<lparr>status = Exited 1,
              stdout = [''Error: Input file '' @ input_file @ '' does not exist''],
              files = fs\<rparr>
           else remove_screenshots_from_json pf fs input_file output_file)"

text \<open>The exit status of the process: 0 when \<^verbatim>\<open>main\<close> returns.\<close>

definition exit_status :: "outcome \<Rightarrow> int" where
  "exit_status r = (case status r of Returned \<Rightarrow> 0 | Exited n \<Rightarrow> n)"

section \<open>JSON texts\<close>

text \<open>
  The specification speaks of file content that is not syntactically valid JSON. The
  grammar of JSON (RFC 8259) as a recogniser: each function takes the text that is left
  and returns what follows the part it recognises, or \<open>None\<close>.
  \<^item> white space is space, tab, line feed and carriage return;
  \<^item> a string is a quotation mark, characters and a quotation mark, where a character is
    anything from \<^verbatim>\<open>0x20\<close> on except the quotation mark and the backslash, or a
    backslash followed by a quotation mark, a backslash, a slash, one of the letters
    \<^verbatim>\<open>b f n r t\<close>, or \<^verbatim>\<open>u\<close> and four hexadecimal digits
    (\<open>json_string_rest\<close> starts after the opening mark);
  \<^item> a number is an optional minus, then \<^verbatim>\<open>0\<close> or a digit with more digits, then
    optionally a point with one digit or more, then optionally \<^verbatim>\<open>e\<close> or
    \<^verbatim>\<open>E\<close>, an optional sign and one digit or more;
  \<^item> a value is an object, an array, a string, a number or one of \<^verbatim>\<open>true\<close>,
    \<^verbatim>\<open>false\<close>, \<^verbatim>\<open>null\<close>; an array is values between brackets, an object is
    members (a string, a colon, a value) between braces, both separated by commas;
  \<^item> a JSON text is one value with white space around it.
  The first argument of \<open>json_value\<close>, \<open>json_elements\<close> and \<open>json_members\<close> bounds the
  number of nested calls. A level of nesting takes two calls and has an opening and a
  closing bracket, a further element or member takes one call and has a comma, so the
  length of the text is enough.
\<close>

definition json_ws :: "char \<Rightarrow> bool" where
  "json_ws c = (c = CHR '' '' \<or> c = CHR 0x09 \<or> c = CHR 0x0A \<or> c = CHR 0x0D)"

definition json_digit :: "char \<Rightarrow> bool" where
  "json_digit c = (c \<in> set ''0123456789'')"

definition json_hex :: "char \<Rightarrow> bool" where
  "json_hex c = (c \<in> set ''0123456789abcdefABCDEF'')"

fun json_string_rest :: "string \<Rightarrow> string option" where
  "json_string_rest [] = None"
| "json_string_rest (c # cs) =
     (if c = CHR 0x22 then Some cs
      else if c = CHR 0x5C then
        (case cs of
           [] \<Rightarrow> None
         | e # es \<Rightarrow>
             if e \<in> set (CHR 0x22 # CHR 0x5C # ''/bfnrt'') then json_string_rest es
             else if e = CHR ''u'' \<and> 4 \<le> length es \<and> list_all json_hex (take 4 es)
               then json_string_rest (drop 4 es)
             else None)
      else if (of_char c :: nat) < 32 then None
      else json_string_rest cs)"

definition json_digits1 :: "string \<Rightarrow> string option" where
  "json_digits1 s =
     (case s of [] \<Rightarrow> None
      | d # r \<Rightarrow> if json_digit d then Some (dropWhile json_digit r) else None)"

definition json_exp :: "string \<Rightarrow> string option" where
  "json_exp s =
     (case s of [] \<Rightarrow> Some []
      | e # r \<Rightarrow>
          if e = CHR ''e'' \<or> e = CHR ''E'' then
            (case r of [] \<Rightarrow> None
             | sg # r' \<Rightarrow> if sg = CHR ''+'' \<or> sg = CHR ''-'' then json_digits1 r'
                          else json_digits1 r)
          else Some s)"

definition json_frac :: "string \<Rightarrow> string option" where
  "json_frac s =
     (case s of [] \<Rightarrow> Some []
      | p # r \<Rightarrow>
          if p = CHR ''.'' then
            (case json_digits1 r of None \<Rightarrow> None | Some r' \<Rightarrow> json_exp r')
          else json_exp s)"

definition json_int :: "string \<Rightarrow> string option" where
  "json_int s =
     (case s of [] \<Rightarrow> None
      | d # r \<Rightarrow> if d = CHR ''0'' then json_frac r
                 else if json_digit d then json_frac (dropWhile json_digit r)
                 else None)"

definition json_number :: "string \<Rightarrow> string option" where
  "json_number s =
     (case s of [] \<Rightarrow> None
      | c # r \<Rightarrow> if c = CHR ''-'' then json_int r else json_int s)"

definition json_literal :: "string \<Rightarrow> string \<Rightarrow> string option" where
  "json_literal w s = (if take (length w) s = w then Some (drop (length w) s) else None)"

fun json_value :: "nat \<Rightarrow> string \<Rightarrow> string option"
  and json_elements :: "nat \<Rightarrow> string \<Rightarrow> string option"
  and json_members :: "nat \<Rightarrow> string \<Rightarrow> string option" where
  "json_value 0 s = None"
| "json_value (Suc k) [] = None"
| "json_value (Suc k) (c # r) =
     (if c = CHR ''{'' then
        (case dropWhile json_ws r of
           [] \<Rightarrow> None
         | c' # r' \<Rightarrow> if c' = CHR ''}'' then Some r' else json_members k (c' # r'))
      else if c = CHR ''['' then
        (case dropWhile json_ws r of
           [] \<Rightarrow> None
         | c' # r' \<Rightarrow> if c' = CHR '']'' then Some r' else json_elements k (c' # r'))
      else if c = CHR 0x22 then json_string_rest r
      else if c = CHR ''t'' then json_literal ''true'' (c # r)
      else if c = CHR ''f'' then json_literal ''false'' (c # r)
      else if c = CHR ''n'' then json_literal ''null'' (c # r)
      else json_number (c # r))"
| "json_elements 0 s = None"
| "json_elements (Suc k) s =
     (case json_value k s of
        None \<Rightarrow> None
      | Some r \<Rightarrow>
          (case dropWhile json_ws r of
             [] \<Rightarrow> None
           | c # r' \<Rightarrow> if c = CHR '']'' then Some r'
                        else if c = CHR '','' then json_elements k (dropWhile json_ws r')
                        else None))"
| "json_members 0 s = None"
| "json_members (Suc k) [] = None"
| "json_members (Suc k) (q # r) =
     (if q = CHR 0x22 then
        (case json_string_rest r of
           None \<Rightarrow> None
         | Some r1 \<Rightarrow>
             (case dropWhile json_ws r1 of
                [] \<Rightarrow> None
              | c # r2 \<Rightarrow>
                  if c = CHR '':'' then
                    (case json_value k (dropWhile json_ws r2) of
                       None \<Rightarrow> None
                     | Some r3 \<Rightarrow>
                         (case dropWhile json_ws r3 of
                            [] \<Rightarrow> None
                          | c' # r4 \<Rightarrow>
                              if c' = CHR ''}'' then Some r4
                              else if c' = CHR '','' then json_members k (dropWhile json_ws r4)
                              else None))
                  else None))
      else None)"

definition valid_json :: "string \<Rightarrow> bool" where
  "valid_json s =
     (case json_value (Suc (length s)) (dropWhile json_ws s) of
        None \<Rightarrow> False
      | Some r \<Rightarrow> dropWhile json_ws r = [])"

section \<open>A platform and a directory for the worked examples\<close>

text \<open>
  A decoder and an encoder that know the texts and documents of the examples below; for
  them they return what \<^verbatim>\<open>json.load\<close> and \<^verbatim>\<open>json.dump\<close> with
  \<^verbatim>\<open>indent=2\<close> return. Python's decoder reads the text \<^verbatim>\<open>NaN\<close>, which the JSON
  grammar does not have, as the float \<^verbatim>\<open>nan\<close>, and its encoder writes
  \<^verbatim>\<open>NaN\<close> for it. The directory has three files of text that the decoder accepts,
  one that it rejects, one that may not be written, and a directory. The path
  \<^verbatim>\<open>./in.json\<close> names the file \<^verbatim>\<open>in.json\<close>; the path
  \<^verbatim>\<open>missing/out.json\<close> lies in a directory that does not exist.
\<close>

datatype special_float = Float_NaN | Float_Infinity | Float_MinusInfinity

definition quoted :: "string \<Rightarrow> string" where
  "quoted s = [CHR 0x22] @ s @ [CHR 0x22]"

definition example_load :: "string \<Rightarrow> exn + special_float json" where
  "example_load contents =
     (if contents = ''{'' @ quoted ''screenshot'' @ '': '' @ quoted ''AAAA'' @ ''}''
      then Inr (JObj [(''screenshot'', JStr ''AAAA'')])
      else if contents = ''[7]'' \<or> contents = ''[ 7 ]'' then Inr (JArr [JInt 7])
      else if contents = ''[NaN]'' then Inr (JArr [JFloat Float_NaN])
      else Inl (JSONDecodeError
             ''Expecting property name enclosed in double quotes: line 1 column 2 (char 1)''))"

definition example_dump :: "special_float json \<Rightarrow> string \<times> exn option" where
  "example_dump data =
     (if data = JObj [(''screenshot'', JNull)]
      then (''{\<newline>  '' @ quoted ''screenshot'' @ '': null\<newline>}'', None)
      else if data = JArr [JInt 7] then (''[\<newline>  7\<newline>]'', None)
      else if data = JArr [JFloat Float_NaN] then (''[\<newline>  NaN\<newline>]'', None)
      else ([], Some (OtherException ''not a document of the examples'')))"

definition example_platform :: "special_float platform" where
  "example_platform =
     \<lparr>json_load = example_load, json_dump = example_dump,
      file_of = (\<lambda>p. if p = ''./in.json'' then ''in.json'' else p),
      read_denied = (\<lambda>i. False),
      write_denied = (\<lambda>i. i = ''locked.json''),
      create_fault = (\<lambda>p. if p = ''missing/out.json'' then Some FileNotFoundError else None)\<rparr>"

definition example_files :: filesystem where
  "example_files =
     [''in.json'' \<mapsto> Regular (''{'' @ quoted ''screenshot'' @ '': '' @ quoted ''AAAA'' @ ''}''),
      ''list.json'' \<mapsto> Regular ''[7]'',
      ''nan.json'' \<mapsto> Regular ''[NaN]'',
      ''bad.json'' \<mapsto> Regular ''{not valid json'',
      ''locked.json'' \<mapsto> Regular ''[7]'',
      ''dir'' \<mapsto> Directory]"

section \<open>Properties of the dict operations\<close>

lemma dict_getitem_map_of:
  "dict_getitem d k = (case map_of d k of None \<Rightarrow> Inl (KeyError k) | Some v \<Rightarrow> Inr v)"
  by (induction d) auto

lemma dict_contains_map_of: "dict_contains d k \<longleftrightarrow> map_of d k \<noteq> None"
  by (simp add: dict_contains_def map_of_eq_None_iff)

lemma map_of_dict_setitem: "map_of (dict_setitem d k v) = (map_of d)(k \<mapsto> v)"
  by (induction d) (auto simp: fun_eq_iff)

lemma keys_dict_setitem:
  "map fst (dict_setitem d k v) = (if dict_contains d k then map fst d else map fst d @ [k])"
  by (induction d) (force simp: dict_contains_def)+

lemma dict_setitem_twice: "dict_setitem (dict_setitem d k v) k v = dict_setitem d k v"
  by (induction d) auto

section \<open>The block on one dict\<close>

lemma null_screenshot_eq:
  "null_screenshot d n =
     Inr (if dict_contains d ''screenshot'' then dict_setitem d ''screenshot'' JNull else d,
          n + (if has_nonnull_screenshot (JObj d) then 1 else 0))"
  by (auto simp: null_screenshot_def dict_getitem_map_of dict_contains_map_of
           split: option.splits)

section \<open>The loop and the whole transformation\<close>

lemma strip_items_eq:
  "strip_items xs n =
     Inr (map nulled xs, n + int (length (filter has_nonnull_screenshot xs)))"
  by (induction xs n rule: strip_items.induct) (simp_all add: null_screenshot_eq)

lemma strip_document_eq:
  "strip_document doc =
     Inr (case doc of JArr xs \<Rightarrow> JArr (map nulled xs) | JObj d \<Rightarrow> nulled doc | _ \<Rightarrow> doc,
          case doc of JArr xs \<Rightarrow> int (length (filter has_nonnull_screenshot xs))
                    | JObj d \<Rightarrow> (if has_nonnull_screenshot doc then 1 else 0) | _ \<Rightarrow> 0)"
  by (cases doc) (simp_all add: strip_document_def strip_items_eq null_screenshot_eq)

lemma nulled_idem: "nulled (nulled x) = nulled x"
  by (cases x) (simp_all add: dict_setitem_twice dict_contains_def keys_dict_setitem)

lemma nulled_not_counted: "\<not> has_nonnull_screenshot (nulled x)"
  by (cases x) (auto simp: map_of_dict_setitem dict_contains_map_of split: option.splits)

lemma dict_setitem_same: "map_of d k = Some v \<Longrightarrow> dict_setitem d k v = d"
  by (induction d) (auto split: if_splits)

lemma nulled_unchanged: "\<not> has_nonnull_screenshot x \<Longrightarrow> nulled x = x"
  by (cases x) (auto simp: dict_setitem_same dict_contains_map_of split: option.splits)

subsection \<open>Dicts whose keys are distinct\<close>

lemma replace_absent:
  "\<not> dict_contains d k \<Longrightarrow> map (\<lambda>kv. if fst kv = k then (fst kv, v) else kv) d = d"
  by (induction d) (auto simp: dict_contains_def)

lemma dict_setitem_distinct:
  "distinct (map fst d) \<Longrightarrow> dict_contains d k \<Longrightarrow>
   dict_setitem d k v = map (\<lambda>kv. if fst kv = k then (fst kv, v) else kv) d"
proof (induction d)
  case Nil
  then show ?case by (simp add: dict_contains_def)
next
  case (Cons p d)
  show ?case
  proof (cases "fst p = k")
    case True
    with Cons.prems have "\<not> dict_contains d k"
      by (simp add: dict_contains_def)
    then show ?thesis
      using True by (cases p) (simp add: replace_absent)
  next
    case False
    with Cons.prems have "dict_contains d k" "distinct (map fst d)"
      by (simp_all add: dict_contains_def)
    then show ?thesis
      using False Cons.IH by (cases p) simp
  qed
qed

lemma nulled_spec: "dict_keys_once x \<Longrightarrow> nulled x = spec_element x"
  by (cases x) (simp_all add: dict_setitem_distinct replace_absent spec_entry_def[abs_def])

lemma map_nulled_spec: "list_all dict_keys_once xs \<Longrightarrow> map nulled xs = map spec_element xs"
  by (induction xs) (simp_all add: nulled_spec)

lemma nulled_dict_spec:
  "distinct (map fst d) \<Longrightarrow>
   (if dict_contains d ''screenshot'' then dict_setitem d ''screenshot'' JNull else d) =
   map spec_entry d"
  by (simp add: dict_setitem_distinct replace_absent spec_entry_def[abs_def])

lemma nothing_counted:
  "\<not> list_ex has_nonnull_screenshot xs \<Longrightarrow>
   map nulled xs = xs \<and> filter has_nonnull_screenshot xs = []"
  by (induction xs) (simp_all add: nulled_unchanged)

section \<open>The body of the try block\<close>

lemma open_read_Inr:
  "open_read pf fs p = Inr contents \<longleftrightarrow>
   fs (file_of pf p) = Some (Regular contents) \<and> \<not> read_denied pf (file_of pf p)"
  by (auto simp: open_read_def split: option.splits node.splits)

lemma open_write_Inr:
  "open_write pf fs p = Inr fs1 \<Longrightarrow> fs1 = fs(file_of pf p \<mapsto> Regular [])"
  by (auto simp: open_write_def split: option.splits node.splits if_splits)

lemma write_report_frame:
  "i \<noteq> file_of pf output_file \<Longrightarrow>
   fst (write_report pf fs input_file output_file data n) i = fs i"
  by (auto simp: write_report_def dest!: open_write_Inr
           split: sum.splits option.splits prod.splits)

lemma try_body_frame:
  "i \<noteq> file_of pf output_file \<Longrightarrow> fst (try_body pf fs input_file output_file) i = fs i"
  by (simp add: try_body_def write_report_frame split: sum.splits prod.splits)



lemma try_body_returned:
  "snd (try_body pf fs input_file output_file) = Inr printed \<Longrightarrow>
   \<exists>contents data data' n written.
      open_read pf fs input_file = Inr contents \<and> json_load pf contents = Inr data \<and>
      strip_document data = Inr (data', n) \<and> json_dump pf data' = (written, None) \<and>
      fst (try_body pf fs input_file output_file) (file_of pf output_file) =
        Some (Regular written) \<and>
      printed = [''Successfully processed '' @ input_file,
                 ''Removed '' @ str_int n @ '' screenshot entries'',
                 ''Output written to '' @ output_file]"
  by (auto simp: try_body_def write_report_def split: sum.splits option.splits prod.splits)

section \<open>The claims about the transformation\<close>

text \<open>
  C1. For a document that is an array, the removal count is the number of elements that
  are objects with a \<^verbatim>\<open>screenshot\<close> key whose value is not null before the
  transformation (an element whose value is already null is not counted); for a
  document that is a single object it is 1 if the key is there with a non-null value and
  0 otherwise. The transformation raises nothing on the way.
\<close>

theorem removal_count:
  "(\<exists>out. strip_document (JArr xs) =
            Inr (out, int (length (filter has_nonnull_screenshot xs)))) \<and>
   (\<exists>out. strip_document (JObj d) =
            Inr (out, if has_nonnull_screenshot (JObj d) then 1 else 0))"
  by (simp add: strip_document_eq)

theorem removal_count_witness:
  "strip_document
     (JArr [JObj [(''id'', JInt 1), (''screenshot'', JStr ''AAAA'')],
            JObj [(''id'', JInt 2), (''screenshot'', JNull)],
            JObj [(''id'', JInt 3)]] :: nat json) =
   Inr (JArr [JObj [(''id'', JInt 1), (''screenshot'', JNull)],
              JObj [(''id'', JInt 2), (''screenshot'', JNull)],
              JObj [(''id'', JInt 3)]], 1) \<and>
   strip_document (JObj [(''screenshot'', JNull), (''id'', JInt 2)] :: nat json) =
   Inr (JObj [(''screenshot'', JNull), (''id'', JInt 2)], 0)"
  using removal_count [of "[JObj [(''id'', JInt 1), (''screenshot'', JStr ''AAAA'')],
            JObj [(''id'', JInt 2), (''screenshot'', JNull)],
            JObj [(''id'', JInt 3)]] :: nat json list"
          "[(''screenshot'', JNull), (''id'', JInt 2)]"]
  by (simp add: strip_document_def null_screenshot_def dict_contains_def)

text \<open>
  C4. The transformation is idempotent: run on its own output it returns that output
  again, with removal count zero.
\<close>

theorem strip_idempotent:
  "\<exists>out n. strip_document doc = Inr (out, n) \<and> strip_document out = Inr (out, 0)"
proof (cases doc)
  case (JArr xs)
  then show ?thesis
    by (simp add: strip_document_eq nulled_idem nulled_not_counted)
next
  case (JObj d)
  have "nulled (nulled (JObj d)) = nulled (JObj d)"
    by (rule nulled_idem)
  moreover have "\<not> has_nonnull_screenshot (nulled (JObj d))"
    by (rule nulled_not_counted)
  ultimately show ?thesis
    using JObj by (simp add: strip_document_eq split: if_splits)
qed (simp_all add: strip_document_eq)

theorem strip_idempotent_witness:
  "strip_document (JArr [JInt 7, JObj [(''screenshot'', JStr ''AAAA'')]] :: nat json) =
     Inr (JArr [JInt 7, JObj [(''screenshot'', JNull)]], 1) \<and>
   strip_document (JArr [JInt 7, JObj [(''screenshot'', JNull)]] :: nat json) =
     Inr (JArr [JInt 7, JObj [(''screenshot'', JNull)]], 0)"
  using strip_idempotent [of "JArr [JInt 7, JObj [(''screenshot'', JStr ''AAAA'')]] :: nat json"]
  by (simp add: strip_document_def null_screenshot_def dict_contains_def)

text \<open>
  C2. The output document has the structure and the keys of the input, in the same
  order; the value of every top-level \<^verbatim>\<open>screenshot\<close> key (in the root object, or
  in each object element of a root array) is null; every other key keeps its value and no
  nested object or array is entered. The output is \<open>spec_output\<close> of the input, for
  every document whose top-level dicts hold each key once, as every Python dict does.
\<close>

theorem output_structure:
  "keys_once doc \<Longrightarrow> \<exists>n. strip_document doc = Inr (spec_output doc, n)"
proof (cases doc)
  case (JArr xs)
  assume "keys_once doc"
  with JArr have "map nulled xs = map spec_element xs"
    by (simp add: map_nulled_spec)
  with JArr show ?thesis
    by (simp add: strip_document_eq)
next
  case (JObj d)
  assume "keys_once doc"
  with JObj have "distinct (map fst d)"
    by simp
  then show ?thesis
    using JObj nulled_dict_spec [of d] by (simp add: strip_document_eq)
qed (simp_all add: strip_document_eq)

theorem output_structure_witness:
  "keys_once (JArr [JObj [(''id'', JInt 1), (''screenshot'', JStr ''AAAA''),
                          (''meta'', JObj [(''screenshot'', JStr ''BBBB'')])],
                    JStr ''screenshot''] :: nat json) \<and>
   strip_document (JArr [JObj [(''id'', JInt 1), (''screenshot'', JStr ''AAAA''),
                               (''meta'', JObj [(''screenshot'', JStr ''BBBB'')])],
                         JStr ''screenshot''] :: nat json) =
   Inr (JArr [JObj [(''id'', JInt 1), (''screenshot'', JNull),
                    (''meta'', JObj [(''screenshot'', JStr ''BBBB'')])],
              JStr ''screenshot''], 1)"
  using output_structure [of "JArr [JObj [(''id'', JInt 1), (''screenshot'', JStr ''AAAA''),
                          (''meta'', JObj [(''screenshot'', JStr ''BBBB'')])],
                    JStr ''screenshot''] :: nat json"]
  by (simp add: strip_document_def null_screenshot_def dict_contains_def)

text \<open>
  C3, as stated: a document that is neither an object nor an array of objects is left
  unchanged, with removal count zero. It fails on an array that mixes objects with other
  values: \<^verbatim>\<open>[1, {"screenshot": "AAAA"}]\<close> is neither, and the loop nulls the field
  of its second element and counts it.
\<close>

theorem passthrough_counterexample:
  "\<not> is_object (JArr [JInt 1, JObj [(''screenshot'', JStr ''AAAA'')]] :: nat json) \<and>
   \<not> array_of_objects (JArr [JInt 1, JObj [(''screenshot'', JStr ''AAAA'')]] :: nat json) \<and>
   strip_document (JArr [JInt 1, JObj [(''screenshot'', JStr ''AAAA'')]] :: nat json) =
     Inr (JArr [JInt 1, JObj [(''screenshot'', JNull)]], 1) \<and>
   strip_document (JArr [JInt 1, JObj [(''screenshot'', JStr ''AAAA'')]] :: nat json) \<noteq>
     Inr (JArr [JInt 1, JObj [(''screenshot'', JStr ''AAAA'')]], 0)"
  by (simp add: strip_document_def null_screenshot_def dict_contains_def)

text \<open>
  C3, amended: a document that is neither an object nor an array of objects, and that
  has no object element whose \<^verbatim>\<open>screenshot\<close> value is non-null (a number, a
  string, a boolean, null, an array containing only non-object values, a mixed array
  whose objects lack the key or hold null under it), is left unchanged by the
  transformation, which raises no error and counts zero removals; the unchanged document
  is emitted as output: once it has been read and decoded, the rest of the run is the
  write step of lines 48 to 53 on that very document, with count zero.
\<close>

theorem passthrough:
  "\<not> is_object doc \<Longrightarrow> \<not> array_of_objects doc \<Longrightarrow> \<not> array_with_nonnull_screenshot doc \<Longrightarrow>
   strip_document doc = Inr (doc, 0) \<and>
   (\<forall>pf fs input_file output_file contents.
      open_read pf fs input_file = Inr contents \<longrightarrow> json_load pf contents = Inr doc \<longrightarrow>
      try_body pf fs input_file output_file =
        write_report pf fs input_file output_file doc 0)"
proof -
  assume "\<not> is_object doc" "\<not> array_with_nonnull_screenshot doc"
  then have same: "strip_document doc = Inr (doc, 0)"
    by (cases doc) (simp_all add: strip_document_eq nothing_counted)
  then show ?thesis
    by (simp add: try_body_def)
qed

theorem passthrough_witness:
  "\<not> is_object (JArr [JInt 1, JObj [(''screenshot'', JNull)]] :: nat json) \<and>
   \<not> array_of_objects (JArr [JInt 1, JObj [(''screenshot'', JNull)]] :: nat json) \<and>
   \<not> array_with_nonnull_screenshot (JArr [JInt 1, JObj [(''screenshot'', JNull)]] :: nat json) \<and>
   strip_document (JArr [JInt 1, JObj [(''screenshot'', JNull)]] :: nat json) =
     Inr (JArr [JInt 1, JObj [(''screenshot'', JNull)]], 0) \<and>
   try_body example_platform example_files ''list.json'' ''out.json'' =
     (example_files(''out.json'' \<mapsto> Regular ''[\<newline>  7\<newline>]''),
      Inr [''Successfully processed list.json'', ''Removed 0 screenshot entries'',
           ''Output written to out.json''])"
  using passthrough [of "JArr [JInt 1, JObj [(''screenshot'', JNull)]] :: nat json"]
    passthrough [of "JArr [JInt 7]", THEN conjunct2, rule_format,
      of example_platform example_files "''list.json''" "''[7]''" "''out.json''"]
  by (simp add: dict_contains_def open_read_def open_write_def write_report_def
        example_files_def example_platform_def example_load_def example_dump_def quoted_def
        str_int_def str_nat.simps)

text \<open>
  C9. A root array that mixes object and non-object elements is still processed element
  by element: the output array has the same length, every non-object element is passed
  through unchanged, every object element has null stored under its top-level
  \<^verbatim>\<open>screenshot\<close> key if it has one and is unchanged otherwise, and the objects with
  a non-null value are counted.
\<close>

theorem mixed_array:
  "\<exists>out. strip_document (JArr xs) =
            Inr (JArr out, int (length (filter has_nonnull_screenshot xs))) \<and>
         length out = length xs \<and>
         (\<forall>i<length xs.
            (\<not> is_object (xs ! i) \<longrightarrow> out ! i = xs ! i) \<and>
            (\<forall>d. xs ! i = JObj d \<longrightarrow>
               out ! i = JObj (if dict_contains d ''screenshot''
                               then dict_setitem d ''screenshot'' JNull else d)))"
proof -
  have "\<not> is_object x \<Longrightarrow> nulled x = x" for x :: "'a json"
    by (cases x) simp_all
  then show ?thesis
    by (simp add: strip_document_eq)
qed

theorem mixed_array_witness:
  "strip_document
     (JArr [JInt 1, JObj [(''id'', JInt 2), (''screenshot'', JStr ''AAAA'')], JStr ''x'',
            JObj [(''screenshot'', JNull)], JArr [JObj [(''screenshot'', JStr ''BBBB'')]]]
      :: nat json) =
   Inr (JArr [JInt 1, JObj [(''id'', JInt 2), (''screenshot'', JNull)], JStr ''x'',
              JObj [(''screenshot'', JNull)], JArr [JObj [(''screenshot'', JStr ''BBBB'')]]], 1)"
  using mixed_array [of "[JInt 1, JObj [(''id'', JInt 2), (''screenshot'', JStr ''AAAA'')],
            JStr ''x'', JObj [(''screenshot'', JNull)],
            JArr [JObj [(''screenshot'', JStr ''BBBB'')]]] :: nat json list"]
  by (simp add: strip_document_def null_screenshot_def dict_contains_def)

section \<open>The claims about files, messages and the exit status\<close>

text \<open>
  C5, as stated: if the content of the input file is not syntactically valid JSON, the
  invocation reports the invalid-JSON error, ends with exit status 1 and writes nothing.
  It fails on the content \<^verbatim>\<open>[NaN]\<close>: that is not a JSON text, yet Python's decoder
  accepts it, so the run reports success, ends with exit status 0 and rewrites the file.
\<close>

theorem invalid_json_counterexample:
  "\<not> valid_json ''[NaN]'' \<and>
   example_files ''nan.json'' = Some (Regular ''[NaN]'') \<and>
   main example_platform example_files [''remove_screenshot_data.py'', ''nan.json''] =
     \<lparr>status = Returned,
      stdout = [''Successfully processed nan.json'', ''Removed 0 screenshot entries'',
                ''Output written to nan.json''],
      files = example_files(''nan.json'' \<mapsto> Regular ''[\<newline>  NaN\<newline>]'')\<rparr> \<and>
   exit_status
     (main example_platform example_files [''remove_screenshot_data.py'', ''nan.json'']) = 0"
  by (simp add: valid_json_def json_ws_def json_number_def json_int_def json_digit_def
        exit_status_def main_def remove_screenshots_from_json_def try_body_def write_report_def
        Let_def path_exists_def open_read_def open_write_def example_files_def
        example_platform_def example_load_def example_dump_def quoted_def strip_document_def
        null_screenshot_def dict_contains_def str_int_def str_nat.simps)

text \<open>
  C5, amended: if the decoder raises \<^verbatim>\<open>JSONDecodeError\<close> on the content of the
  input file, the invocation prints the invalid-JSON error with the decoder's message,
  ends with exit status 1 and writes nothing: every file, the input file included, is as
  it was, whatever the output path is.
\<close>

theorem invalid_json:
  "open_read pf fs input_file = Inr contents \<Longrightarrow>
   json_load pf contents = Inl (JSONDecodeError msg) \<Longrightarrow>
   main pf fs (prog # input_file # rest) =
     \<lparr>status = Exited 1,
      stdout = [''Error: Invalid JSON in '' @ input_file @ '': '' @ msg],
      files = fs\<rparr> \<and>
   exit_status (main pf fs (prog # input_file # rest)) = 1 \<and>
   remove_screenshots_from_json pf fs input_file output_file =
     \<lparr>status = Exited 1,
      stdout = [''Error: Invalid JSON in '' @ input_file @ '': '' @ msg],
      files = fs\<rparr>"
proof -
  assume a: "open_read pf fs input_file = Inr contents"
    "json_load pf contents = Inl (JSONDecodeError msg)"
  have raised: "try_body pf fs input_file p = (fs, Inl (JSONDecodeError msg))" for p
    using a by (simp add: try_body_def)
  have there: "path_exists pf fs input_file"
    using a(1) by (simp add: open_read_Inr path_exists_def)
  show ?thesis
    using raised there
    by (simp add: main_def remove_screenshots_from_json_def exit_status_def Let_def)
qed

theorem invalid_json_witness:
  "main example_platform example_files [''remove_screenshot_data.py'', ''bad.json''] =
     \<lparr>status = Exited 1,
      stdout = [''Error: Invalid JSON in bad.json: Expecting property name enclosed in double quotes: line 1 column 2 (char 1)''],
      files = example_files\<rparr>"
  using invalid_json [of example_platform example_files "''bad.json''" "''{not valid json''"
      "''Expecting property name enclosed in double quotes: line 1 column 2 (char 1)''"
      "''remove_screenshot_data.py''" "[]" None]
  by (simp add: open_read_def example_files_def example_platform_def example_load_def quoted_def)



text \<open>
  C7, as stated: when a distinct output path is supplied, the result is written only to
  that path and the content of the input file is left unchanged. It fails when the
  distinct path names the input file: with input \<^verbatim>\<open>in.json\<close> and output
  \<^verbatim>\<open>./in.json\<close> the run succeeds and the input file holds the transformed text.
\<close>

theorem output_path_counterexample:
  "''./in.json'' \<noteq> ''in.json'' \<and>
   example_files (file_of example_platform ''in.json'') =
     Some (Regular (''{'' @ quoted ''screenshot'' @ '': '' @ quoted ''AAAA'' @ ''}'')) \<and>
   status (remove_screenshots_from_json example_platform example_files
             ''in.json'' (Some ''./in.json'')) = Returned \<and>
   files (remove_screenshots_from_json example_platform example_files
            ''in.json'' (Some ''./in.json'')) (file_of example_platform ''in.json'') =
     Some (Regular (''{\<newline>  '' @ quoted ''screenshot'' @ '': null\<newline>}'')) \<and>
   files (remove_screenshots_from_json example_platform example_files
            ''in.json'' (Some ''./in.json'')) (file_of example_platform ''in.json'') \<noteq>
     example_files (file_of example_platform ''in.json'')"
  by (simp add: remove_screenshots_from_json_def try_body_def write_report_def Let_def
        open_read_def open_write_def example_files_def example_platform_def example_load_def
        example_dump_def quoted_def strip_document_def null_screenshot_def dict_contains_def)

text \<open>
  C7, amended: when the output path argument is omitted, the transformed document is
  written to the input path (overwriting it); when an output path that names another
  file than the input path is supplied, the result is written only to that file and the
  content of the input file is left unchanged. In the theorem \<open>r\<close> is the outcome of the
  call and \<open>target\<close> the path written to (the input path when the argument is omitted):
  no file but the one that \<open>target\<close> names differs from before the call, so the input
  file is unchanged whenever a given output path names another file; and when the call
  returns, the file that \<open>target\<close> names holds the text that the encoder wrote for the
  transformed document of the input.
\<close>

theorem output_path:
  "r = remove_screenshots_from_json pf fs input_file output_file_arg \<Longrightarrow>
   target = (case output_file_arg of None \<Rightarrow> input_file | Some p \<Rightarrow> p) \<Longrightarrow>
   (\<forall>i. i \<noteq> file_of pf target \<longrightarrow> files r i = fs i) \<and>
   (\<forall>p. output_file_arg = Some p \<longrightarrow> file_of pf p \<noteq> file_of pf input_file \<longrightarrow>
        files r (file_of pf input_file) = fs (file_of pf input_file)) \<and>
   (status r = Returned \<longrightarrow>
      (\<exists>contents data data' n written.
         open_read pf fs input_file = Inr contents \<and> json_load pf contents = Inr data \<and>
         strip_document data = Inr (data', n) \<and> json_dump pf data' = (written, None) \<and>
         files r (file_of pf target) = Some (Regular written) \<and>
         stdout r = [''Successfully processed '' @ input_file,
                     ''Removed '' @ str_int n @ '' screenshot entries'',
                     ''Output written to '' @ target]))"
proof -
  assume r: "r = remove_screenshots_from_json pf fs input_file output_file_arg"
    and t: "target = (case output_file_arg of None \<Rightarrow> input_file | Some p \<Rightarrow> p)"
  obtain fs' res where b: "try_body pf fs input_file target = (fs', res)"
    by (cases "try_body pf fs input_file target")
  have f: "files r = fs'"
    using r t b by (cases res) (simp_all add: remove_screenshots_from_json_def)
  have frame: "files r i = fs i" if "i \<noteq> file_of pf target" for i
    using try_body_frame [OF that, of fs input_file] b f by simp
  have given: "files r (file_of pf input_file) = fs (file_of pf input_file)"
    if "output_file_arg = Some p" "file_of pf p \<noteq> file_of pf input_file" for p
    using that t frame [of "file_of pf input_file"] by simp
  have returned: "\<exists>contents data data' n written.
         open_read pf fs input_file = Inr contents \<and> json_load pf contents = Inr data \<and>
         strip_document data = Inr (data', n) \<and> json_dump pf data' = (written, None) \<and>
         files r (file_of pf target) = Some (Regular written) \<and>
         stdout r = [''Successfully processed '' @ input_file,
                     ''Removed '' @ str_int n @ '' screenshot entries'',
                     ''Output written to '' @ target]"
    if "status r = Returned"
  proof -
    from that r t b obtain printed where p: "res = Inr printed" "stdout r = printed"
      by (cases res) (simp_all add: remove_screenshots_from_json_def)
    from p(1) b have "snd (try_body pf fs input_file target) = Inr printed"
      by simp
    from try_body_returned [OF this] show ?thesis
      using b f p(2) by auto
  qed
  show ?thesis
    using frame given returned by blast
qed

theorem output_path_witness:
  "remove_screenshots_from_json example_platform example_files ''in.json'' None =
     \<lparr>status = Returned,
      stdout = [''Successfully processed in.json'', ''Removed 1 screenshot entries'',
                ''Output written to in.json''],
      files = example_files(''in.json'' \<mapsto>
                Regular (''{\<newline>  '' @ quoted ''screenshot'' @ '': null\<newline>}''))\<rparr> \<and>
   remove_screenshots_from_json example_platform example_files ''in.json'' (Some ''out.json'') =
     \<lparr>status = Returned,
      stdout = [''Successfully processed in.json'', ''Removed 1 screenshot entries'',
                ''Output written to out.json''],
      files = example_files(''out.json'' \<mapsto>
                Regular (''{\<newline>  '' @ quoted ''screenshot'' @ '': null\<newline>}''))\<rparr> \<and>
   file_of example_platform ''out.json'' \<noteq> file_of example_platform ''in.json'' \<and>
   files (remove_screenshots_from_json example_platform example_files ''in.json''
            (Some ''out.json'')) (file_of example_platform ''in.json'') =
     Some (Regular (''{'' @ quoted ''screenshot'' @ '': '' @ quoted ''AAAA'' @ ''}''))"
  using output_path [of
      "remove_screenshots_from_json example_platform example_files ''in.json'' (Some ''out.json'')"
      example_platform example_files "''in.json''" "Some ''out.json''" "''out.json''"]
  by (simp add: remove_screenshots_from_json_def try_body_def write_report_def Let_def
        open_read_def open_write_def example_files_def example_platform_def
        example_load_def example_dump_def quoted_def strip_document_def null_screenshot_def
        dict_contains_def str_int_def str_nat.simps)



end
